theory Spec2Isabelle
  imports Complex_Main "HOL-Library.Word"
begin

section \<open>The weather page: from a place name to current conditions and tides\<close>

text \<open>
  The development follows the \<^verbatim>\<open>Weather\<close> component (the variant with tide data):
  \<^verbatim>\<open>getCoordinates\<close>, \<^verbatim>\<open>getWeatherDescription\<close>, \<^verbatim>\<open>getWeatherIcon\<close>,
  \<^verbatim>\<open>fetchTideData\<close> and the submit handler \<^verbatim>\<open>fetchWeather\<close>.
\<close>

subsection \<open>JavaScript strings\<close>

text \<open>
  A JavaScript string is a sequence of UTF-16 code units. The ASCII literals of the
  source are written \<open>js ''...''\<close>: one code unit per character.
\<close>

type_synonym jschar = "16 word"
type_synonym jsstring = "jschar list"

definition js :: "string \<Rightarrow> jsstring" where
  "js s = map (\<lambda>c. word_of_nat (of_char c)) s"

text \<open>
  \<^verbatim>\<open>String.prototype.trim\<close> removes the ECMAScript \<^verbatim>\<open>WhiteSpace\<close> and
  \<^verbatim>\<open>LineTerminator\<close> code points from both ends: TAB, LF, VT, FF, CR, SPACE,
  NBSP, the other space separators (category Zs), LS, PS and the byte-order mark.
\<close>

definition isWhiteSpace :: "jschar \<Rightarrow> bool" where
  "isWhiteSpace c \<longleftrightarrow>
     c \<in> {0x0009, 0x000A, 0x000B, 0x000C, 0x000D, 0x0020, 0x00A0, 0x1680,
          0x2000, 0x2001, 0x2002, 0x2003, 0x2004, 0x2005, 0x2006, 0x2007,
          0x2008, 0x2009, 0x200A, 0x2028, 0x2029, 0x202F, 0x205F, 0x3000, 0xFEFF}"

definition trim :: "jsstring \<Rightarrow> jsstring" where
  "trim s = rev (dropWhile isWhiteSpace (rev (dropWhile isWhiteSpace s)))"

text \<open>
  \<^verbatim>\<open>encodeURIComponent\<close> throws a \<^verbatim>\<open>URIError\<close> on a string with a lone
  surrogate: a high surrogate needs a low surrogate right after it, and a low surrogate
  never stands alone. Only this check is modelled; the escaped text itself stays inside
  the request (see \<open>request\<close> below).
\<close>

definition isHighSurrogate :: "jschar \<Rightarrow> bool" where
  "isHighSurrogate c \<longleftrightarrow> 0xD800 \<le> c \<and> c \<le> 0xDBFF"

definition isLowSurrogate :: "jschar \<Rightarrow> bool" where
  "isLowSurrogate c \<longleftrightarrow> 0xDC00 \<le> c \<and> c \<le> 0xDFFF"

fun wellFormed :: "jsstring \<Rightarrow> bool" where
  "wellFormed [] = True"
| "wellFormed [c] = (\<not> isHighSurrogate c \<and> \<not> isLowSurrogate c)"
| "wellFormed (c # d # cs) =
     (if isHighSurrogate c then isLowSurrogate d \<and> wellFormed cs
      else \<not> isLowSurrogate c \<and> wellFormed (d # cs))"

subsection \<open>Weather code to description\<close>

text \<open>
  \<^verbatim>\<open>
  const getWeatherDescription = (code) => {
    const descriptions = { 0: "Clear sky", 1: "Mainly clear", ... 99: "Thunderstorm with heavy hail" };
    return descriptions[code] || "Unknown";
  };
  \<close>
  The condition code is an integer (the WMO code of the forecast service). The object
  literal is an association list; its lookup with an integer key finds an own property
  or nothing, and \<^verbatim>\<open>||\<close> replaces a missing (or empty) entry by \<^verbatim>\<open>"Unknown"\<close>.
\<close>

definition descriptions :: "(int \<times> jsstring) list" where
  "descriptions =
    [(0, js ''Clear sky''),
     (1, js ''Mainly clear''),
     (2, js ''Partly cloudy''),
     (3, js ''Overcast''),
     (45, js ''Foggy''),
     (48, js ''Depositing rime fog''),
     (51, js ''Light drizzle''),
     (53, js ''Moderate drizzle''),
     (55, js ''Dense drizzle''),
     (61, js ''Slight rain''),
     (63, js ''Moderate rain''),
     (65, js ''Heavy rain''),
     (71, js ''Slight snow''),
     (73, js ''Moderate snow''),
     (75, js ''Heavy snow''),
     (77, js ''Snow grains''),
     (80, js ''Slight rain showers''),
     (81, js ''Moderate rain showers''),
     (82, js ''Violent rain showers''),
     (85, js ''Slight snow showers''),
     (86, js ''Heavy snow showers''),
     (95, js ''Thunderstorm''),
     (96, js ''Thunderstorm with slight hail''),
     (99, js ''Thunderstorm with heavy hail'')]"

definition getWeatherDescription :: "int \<Rightarrow> jsstring" where
  "getWeatherDescription code =
     (case map_of descriptions code of
        None \<Rightarrow> js ''Unknown''
      | Some d \<Rightarrow> if d = [] then js ''Unknown'' else d)"

subsection \<open>Weather code to icon\<close>

text \<open>
  The icon literals, as the code units of the source text. The file stores each emoji
  in a mis-decoded form (its UTF-8 bytes read as Mac OS Roman); the names below are the
  emoji the bytes stand for: sun, crescent moon, sun behind small cloud, fog, sun behind
  rain cloud, cloud with rain, cloud with snow, thunder cloud with rain, thermometer.
\<close>

definition iconSun :: jsstring where
  "iconSun = [0x201A, 0xF2, 0xC4, 0xD4, 0x220F, 0xE8]"

definition iconMoon :: jsstring where
  "iconMoon = [0xF8FF, 0xFC, 0xE5, 0xF4]"

definition iconSunSmallCloud :: jsstring where
  "iconSunSmallCloud = [0xF8FF, 0xFC, 0xE5, 0xA7, 0xD4, 0x220F, 0xE8]"

definition iconFog :: jsstring where
  "iconFog = [0xF8FF, 0xFC, 0xE5, 0xB4, 0xD4, 0x220F, 0xE8]"

definition iconSunRainCloud :: jsstring where
  "iconSunRainCloud = [0xF8FF, 0xFC, 0xE5, 0xB6, 0xD4, 0x220F, 0xE8]"

definition iconRainCloud :: jsstring where
  "iconRainCloud = [0xF8FF, 0xFC, 0xE5, 0xDF, 0xD4, 0x220F, 0xE8]"

definition iconSnowCloud :: jsstring where
  "iconSnowCloud = [0xF8FF, 0xFC, 0xE5, 0xAE, 0xD4, 0x220F, 0xE8]"

definition iconThunder :: jsstring where
  "iconThunder = [0x201A, 0xF5, 0xE0, 0xD4, 0x220F, 0xE8]"

definition iconThermometer :: jsstring where
  "iconThermometer = [0xF8FF, 0xFC, 0xE5, 0xB0, 0xD4, 0x220F, 0xE8]"

text \<open>
  \<^verbatim>\<open>
  const getWeatherIcon = (code, isDay) => {
    if (code === 0) return isDay ? SUN : MOON;
    if (code <= 3) return isDay ? SUN_SMALL_CLOUD : MOON;
    if (code <= 48) return FOG;
    if (code <= 55) return SUN_RAIN_CLOUD;
    if (code <= 65) return RAIN_CLOUD;
    if (code <= 77) return SNOW_CLOUD;
    if (code <= 82) return RAIN_CLOUD;
    if (code <= 86) return SNOW_CLOUD;
    if (code >= 95) return THUNDER;
    return THERMOMETER;
  };
  \<close>
  \<open>isDay\<close> is the truth value of the second argument.
\<close>

definition getWeatherIcon :: "int \<Rightarrow> bool \<Rightarrow> jsstring" where
  "getWeatherIcon code isDay =
     (if code = 0 then (if isDay then iconSun else iconMoon)
      else if code \<le> 3 then (if isDay then iconSunSmallCloud else iconMoon)
      else if code \<le> 48 then iconFog
      else if code \<le> 55 then iconSunRainCloud
      else if code \<le> 65 then iconRainCloud
      else if code \<le> 77 then iconSnowCloud
      else if code \<le> 82 then iconRainCloud
      else if code \<le> 86 then iconSnowCloud
      else if code \<ge> 95 then iconThunder
      else iconThermometer)"

subsection \<open>The three upstream services\<close>

text \<open>
  A \<^verbatim>\<open>fetch\<close> either rejects (transport failure; the string is the
  \<^verbatim>\<open>message\<close> of the error) or resolves to a response with its \<^verbatim>\<open>ok\<close>
  flag (HTTP 2xx) and a body. \<^verbatim>\<open>response.json()\<close> rejects on a body that is not
  JSON (\<open>Unparsable\<close>, with the message of the error); \<open>Malformed\<close> stands for a
  parsed value of a shape on which the property reads of the caller throw a
  \<^verbatim>\<open>TypeError\<close> (with that message), such as \<^verbatim>\<open>null\<close>; \<open>Json\<close> carries a
  value of the documented shape.
\<close>

datatype 'a body = Unparsable jsstring | Malformed jsstring | Json 'a

datatype 'a response = Rejected jsstring | HttpResponse bool "'a body"

text \<open>
  Numbers that are only carried from a response to the view (coordinates, temperature,
  heights) are reals; the condition code, the day flag and the time stamps are integers.
\<close>

record geo_entry =
  geo_lat :: jsstring
  geo_lon :: jsstring
  display_name :: jsstring

record current =
  temperature_2m :: real
  relative_humidity_2m :: real
  apparent_temperature :: real
  weather_code :: int
  wind_speed_10m :: real
  pressure_msl :: real
  is_day :: int

record extreme =
  ext_type :: jsstring
  ext_height :: real
  dt :: int

text \<open>
  The outbound requests, by their URL template and its parameters:
  \<^item> \<open>Nominatim q\<close>: \<^verbatim>\<open>nominatim.openstreetmap.org/search?q=${encodeURIComponent(q)}&format=json&limit=1\<close>;
  \<^item> \<open>OpenMeteo lat lon\<close>: \<^verbatim>\<open>api.open-meteo.com/v1/forecast?latitude=${lat}&longitude=${lon}&current=...&timezone=auto\<close>;
  \<^item> \<open>WorldTides lat lon start len\<close>: \<^verbatim>\<open>www.worldtides.info/api/v3?extremes&lat=${lat}&lon=${lon}&start=${start}&length=${len}\<close>.
\<close>

datatype request =
    Nominatim jsstring
  | OpenMeteo real real
  | WorldTides real real int int

text \<open>
  What a run depends on outside the component: the answers of the three services, the
  clock (\<^verbatim>\<open>new Date().getTime()\<close>, in milliseconds), \<^verbatim>\<open>parseFloat\<close>, and the
  message of the engine's \<^verbatim>\<open>URIError\<close>. The body of the tide service is its
  \<^verbatim>\<open>extremes\<close> property, \<open>None\<close> when it is missing.
\<close>

record env =
  nominatim :: "jsstring \<Rightarrow> geo_entry list response"
  openMeteo :: "real \<Rightarrow> real \<Rightarrow> current response"
  worldTides :: "real \<Rightarrow> real \<Rightarrow> int \<Rightarrow> int \<Rightarrow> extreme list option response"
  now :: int
  parseFloat :: "jsstring \<Rightarrow> real"
  uriErrorMessage :: jsstring

subsection \<open>Geocoding\<close>

record location =
  loc_lat :: real
  loc_lon :: real
  loc_name :: jsstring

text \<open>
  \<^verbatim>\<open>
  const getCoordinates = async (cityName) => {
    const response = await fetch(`...search?q=${encodeURIComponent(cityName)}&format=json&limit=1`);
    if (!response.ok) { throw new Error("Failed to fetch location data"); }
    const data = await response.json();
    if (data.length === 0) { throw new Error("City not found. Please check the spelling."); }
    return { lat: parseFloat(data[0].lat), lon: parseFloat(data[0].lon), name: data[0].display_name };
  };
  \<close>
  The result is the thrown message (\<open>Inl\<close>) or the location, with the requests sent.
\<close>

definition getCoordinates :: "env \<Rightarrow> jsstring \<Rightarrow> (jsstring + location) \<times> request list" where
  "getCoordinates w cityName =
     (if \<not> wellFormed cityName then (Inl (uriErrorMessage w), [])
      else
        (case nominatim w cityName of
           Rejected m \<Rightarrow> (Inl m, [Nominatim cityName])
         | HttpResponse ok b \<Rightarrow>
             if \<not> ok then (Inl (js ''Failed to fetch location data''), [Nominatim cityName])
             else
               (case b of
                  Unparsable m \<Rightarrow> (Inl m, [Nominatim cityName])
                | Malformed m \<Rightarrow> (Inl m, [Nominatim cityName])
                | Json data \<Rightarrow>
                    if length data = 0
                    then (Inl (js ''City not found. Please check the spelling.''),
                          [Nominatim cityName])
                    else (Inr \<lparr>loc_lat = parseFloat w (geo_lat (data ! 0)),
                               loc_lon = parseFloat w (geo_lon (data ! 0)),
                               loc_name = display_name (data ! 0)\<rparr>,
                          [Nominatim cityName]))))"

subsection \<open>Tides\<close>

record tide =
  tide_type :: jsstring
  tide_height :: real
  tide_time :: "int option"

text \<open>
  \<^verbatim>\<open>new Date(ms)\<close>: the time value in milliseconds, or an invalid date (\<open>None\<close>)
  beyond the range of \<^verbatim>\<open>TimeClip\<close>.
\<close>

definition newDate :: "int \<Rightarrow> int option" where
  "newDate ms = (if \<bar>ms\<bar> \<le> 8640000000000000 then Some ms else None)"

text \<open>
  \<^verbatim>\<open>
  const fetchTideData = async (lat, lon) => {
    try {
      const today = new Date();
      const start = Math.floor(today.getTime() / 1000);
      const end = start + 86400 * 2; // Next 48 hours
      const response = await fetch(`...?extremes&lat=${lat}&lon=${lon}&start=${start}&length=${86400 * 2}`);
      if (!response.ok) { return null; }
      const data = await response.json();
      if (!data.extremes || data.extremes.length === 0) { return null; }
      const tides = data.extremes.map((extreme) => ({
        type: extreme.type === "High" ? "High Tide" : "Low Tide",
        height: extreme.height,
        time: new Date(extreme.dt * 1000),
      }));
      return tides.slice(0, 6); // Return next 6 tide events
    } catch (error) {
      console.log("Tide data unavailable:", error.message);
      return null;
    }
  };
  \<close>
  \<^verbatim>\<open>null\<close> is \<open>None\<close>. Every exception is caught inside, so there is no error result.
\<close>

definition tideOfExtreme :: "extreme \<Rightarrow> tide" where
  "tideOfExtreme x =
     \<lparr>tide_type = (if ext_type x = js ''High'' then js ''High Tide'' else js ''Low Tide''),
      tide_height = ext_height x,
      tide_time = newDate (dt x * 1000)\<rparr>"

definition fetchTideData :: "env \<Rightarrow> real \<Rightarrow> real \<Rightarrow> tide list option \<times> request list" where
  "fetchTideData w lat lon =
     (let start = now w div 1000;
          req = WorldTides lat lon start (86400 * 2)
      in
        (case worldTides w lat lon start (86400 * 2) of
           Rejected m \<Rightarrow> (None, [req])
         | HttpResponse ok b \<Rightarrow>
             if \<not> ok then (None, [req])
             else
               (case b of
                  Unparsable m \<Rightarrow> (None, [req])
                | Malformed m \<Rightarrow> (None, [req])
                | Json None \<Rightarrow> (None, [req])
                | Json (Some extremes) \<Rightarrow>
                    if length extremes = 0 then (None, [req])
                    else (Some (take 6 (map tideOfExtreme extremes)), [req]))))"

subsection \<open>The submit handler\<close>

text \<open>
  The state cells of the component (\<^verbatim>\<open>useState\<close>); \<^verbatim>\<open>null\<close> is \<open>None\<close>.
\<close>

record weather_data =
  wd_location :: jsstring
  wd_lat :: real
  wd_lon :: real
  temperature :: real
  feelsLike :: real
  humidity :: real
  windSpeed :: real
  pressure :: real
  weatherCode :: int
  isDay :: int
  description :: jsstring
  icon :: jsstring

record ui_state =
  city :: jsstring
  weatherData :: "weather_data option"
  tideData :: "tide list option"
  loading :: bool
  error :: jsstring
  isFullscreen :: bool

text \<open>
  The log of a run pairs each outbound request with the state cells as they were set
  when the request was sent.
\<close>

type_synonym log = "(request \<times> ui_state) list"

definition stamp :: "ui_state \<Rightarrow> request list \<Rightarrow> log" where
  "stamp s rs = map (\<lambda>r. (r, s)) rs"

text \<open>
  \<^verbatim>\<open>
  const fetchWeather = async (e) => {
    e.preventDefault();
    setLoading(true); setError(""); setWeatherData(null); setTideData(null);
    try {
      const searchCity = city.trim() || "Marseille";
      const location = await getCoordinates(searchCity);
      const weatherResponse = await fetch(`...latitude=${location.lat}&longitude=${location.lon}...`);
      if (!weatherResponse.ok) { throw new Error("Failed to fetch weather data"); }
      const weatherData = await weatherResponse.json();
      setWeatherData({ location: location.name, lat: location.lat, lon: location.lon,
        temperature: weatherData.current.temperature_2m, ...,
        description: getWeatherDescription(weatherData.current.weather_code),
        icon: getWeatherIcon(weatherData.current.weather_code, weatherData.current.is_day) });
      const tides = await fetchTideData(location.lat, location.lon);
      setTideData(tides);
    } catch (err) {
      setError(err.message);
    } finally {
      setLoading(false);
    }
  };
  \<close>
  \<open>newWeatherData\<close> is the object literal given to \<^verbatim>\<open>setWeatherData\<close>, and
  \<open>searchCity\<close> the first line of the \<^verbatim>\<open>try\<close> block. \<open>fetchWeatherTry\<close> is the
  \<^verbatim>\<open>try\<close> block: it returns the thrown message (\<open>Inl\<close>) or normally (\<open>Inr\<close>),
  with the state and the log. \<open>fetchWeather\<close> adds the four setters before it and the
  \<^verbatim>\<open>catch\<close> and \<^verbatim>\<open>finally\<close> blocks after it.
\<close>

definition newWeatherData :: "location \<Rightarrow> current \<Rightarrow> weather_data" where
  "newWeatherData location cur =
     \<lparr>wd_location = loc_name location,
      wd_lat = loc_lat location,
      wd_lon = loc_lon location,
      temperature = temperature_2m cur,
      feelsLike = apparent_temperature cur,
      humidity = relative_humidity_2m cur,
      windSpeed = wind_speed_10m cur,
      pressure = pressure_msl cur,
      weatherCode = weather_code cur,
      isDay = is_day cur,
      description = getWeatherDescription (weather_code cur),
      icon = getWeatherIcon (weather_code cur) (is_day cur \<noteq> 0)\<rparr>"

definition searchCity :: "jsstring \<Rightarrow> jsstring" where
  "searchCity c = (if trim c = [] then js ''Marseille'' else trim c)"

definition fetchWeatherTry :: "env \<Rightarrow> ui_state \<Rightarrow> (jsstring + unit) \<times> ui_state \<times> log" where
  "fetchWeatherTry w s =
     (case getCoordinates w (searchCity (city s)) of
        (Inl m, rs) \<Rightarrow> (Inl m, s, stamp s rs)
      | (Inr location, rs) \<Rightarrow>
          (let lg = stamp s (rs @ [OpenMeteo (loc_lat location) (loc_lon location)]) in
             (case openMeteo w (loc_lat location) (loc_lon location) of
                Rejected m \<Rightarrow> (Inl m, s, lg)
              | HttpResponse ok b \<Rightarrow>
                  if \<not> ok then (Inl (js ''Failed to fetch weather data''), s, lg)
                  else
                    (case b of
                       Unparsable m \<Rightarrow> (Inl m, s, lg)
                     | Malformed m \<Rightarrow> (Inl m, s, lg)
                     | Json cur \<Rightarrow>
                         (let s' = s\<lparr>weatherData := Some (newWeatherData location cur)\<rparr>
                          in
                            (case fetchTideData w (loc_lat location) (loc_lon location) of
                               (tides, ts) \<Rightarrow>
                                 (Inr (), s'\<lparr>tideData := tides\<rparr>, lg @ stamp s' ts)))))))"

definition fetchWeather :: "env \<Rightarrow> ui_state \<Rightarrow> ui_state \<times> log" where
  "fetchWeather w s =
     (case fetchWeatherTry w
             (s\<lparr>loading := True, error := js '''', weatherData := None, tideData := None\<rparr>) of
        (Inl m, s', lg) \<Rightarrow> (s'\<lparr>error := m, loading := False\<rparr>, lg)
      | (Inr u, s', lg) \<Rightarrow> (s'\<lparr>loading := False\<rparr>, lg))"

subsection \<open>Initial state and sample runs\<close>

text \<open>
  The initial values of the state cells (the arguments of \<^verbatim>\<open>useState\<close>).
\<close>

definition initialState :: ui_state where
  "initialState =
     \<lparr>city = js '''', weatherData = None, tideData = None, loading = False,
      error = js '''', isFullscreen = False\<rparr>"

text \<open>
  Sample environments for concrete runs: every request to a service gets the given
  answer; the clock stands at 1700000000123 ms; \<^verbatim>\<open>parseFloat\<close> is given on the two
  coordinate strings of the sample entry.
\<close>

definition sampleWorld ::
  "geo_entry list response \<Rightarrow> current response \<Rightarrow> extreme list option response \<Rightarrow> env" where
  "sampleWorld g f t =
     \<lparr>nominatim = (\<lambda>q. g),
      openMeteo = (\<lambda>lat lon. f),
      worldTides = (\<lambda>lat lon start len. t),
      now = 1700000000123,
      parseFloat = (\<lambda>s. if s = js ''48.8566'' then 48.8566
                         else if s = js ''2.3522'' then 2.3522 else 0),
      uriErrorMessage = js ''URI malformed''\<rparr>"

definition parisEntry :: geo_entry where
  "parisEntry =
     \<lparr>geo_lat = js ''48.8566'', geo_lon = js ''2.3522'', display_name = js ''Paris, France''\<rparr>"

definition parisLocation :: location where
  "parisLocation = \<lparr>loc_lat = 48.8566, loc_lon = 2.3522, loc_name = js ''Paris, France''\<rparr>"

definition mainlyClear :: current where
  "mainlyClear =
     \<lparr>temperature_2m = 18.4, relative_humidity_2m = 62, apparent_temperature = 17.9,
      weather_code = 1, wind_speed_10m = 11.2, pressure_msl = 1016.3, is_day = 1\<rparr>"

definition sampleExtreme :: "string \<Rightarrow> real \<Rightarrow> int \<Rightarrow> extreme" where
  "sampleExtreme t h d = \<lparr>ext_type = js t, ext_height = h, dt = d\<rparr>"

definition sevenExtremes :: "extreme list" where
  "sevenExtremes =
     [sampleExtreme ''Low'' 0.4 1700003600,
      sampleExtreme ''High'' 1.9 1700025900,
      sampleExtreme ''Low'' 0.5 1700048200,
      sampleExtreme ''High'' 2.0 1700070500,
      sampleExtreme ''low'' 0.3 1700092800,
      sampleExtreme ''High'' 2.1 1700115100,
      sampleExtreme ''Low'' 0.4 1700137400]"

section \<open>Properties\<close>

subsection \<open>Helper facts on strings and icons\<close>

lemma js_empty [simp]: "js [] = []"
  by (simp add: js_def)

lemma js_Nil_iff: "js s = [] \<longleftrightarrow> s = []"
  by (simp add: js_def)

lemma of_char_less_256: "(of_char c :: nat) < 256"
  by (cases c) simp

lemma js_char_eq_iff:
  "(word_of_nat (of_char c) :: 16 word) = word_of_nat (of_char d) \<longleftrightarrow> c = d"
proof -
  have "take_bit 16 (of_char x :: nat) = of_char x" for x
  proof (rule take_bit_nat_eq_self)
    show "(of_char x :: nat) < 2 ^ 16"
      by (rule less_trans [OF of_char_less_256]) simp
  qed
  then show ?thesis
    by (simp add: word_of_nat_eq_iff)
qed

lemma js_eq_iff: "js a = js b \<longleftrightarrow> a = b"
  unfolding js_def
  by (rule inj_map_eq_map) (simp add: inj_on_def js_char_eq_iff)

lemmas icon_defs =
  iconSun_def iconMoon_def iconSunSmallCloud_def iconFog_def iconSunRainCloud_def
  iconRainCloud_def iconSnowCloud_def iconThunder_def iconThermometer_def

lemma trim_whitespace:
  assumes "\<forall>ch\<in>set c. isWhiteSpace ch"
  shows "trim c = []"
proof -
  have front: "dropWhile isWhiteSpace c = []"
    using assms by simp
  show ?thesis unfolding trim_def front by simp
qed

lemma trim_Marseille: "trim (js ''Marseille'') = js ''Marseille''"
  by (simp add: trim_def js_def isWhiteSpace_def)

lemma searchCity_Paris: "searchCity (js ''Paris'') = js ''Paris''"
  by (simp add: searchCity_def trim_def js_def isWhiteSpace_def)

lemma wellFormed_Paris: "wellFormed (js ''Paris'')"
  by (simp add: js_def isHighSurrogate_def isLowSurrogate_def)

subsection \<open>Helper facts on the fetchers\<close>

lemma fetchTideData_requests:
  "snd (fetchTideData w lat lon) = [WorldTides lat lon (now w div 1000) 172800]"
  by (simp add: fetchTideData_def Let_def split: response.split body.split option.split)

lemma fetchTideData_requestsD:
  "fetchTideData w lat lon = (t, ts) \<Longrightarrow> ts = [WorldTides lat lon (now w div 1000) 172800]"
  using fetchTideData_requests [of w lat lon] by simp

lemma fetchTideData_None_iff:
  "fst (fetchTideData w lat lon) = None \<longleftrightarrow>
     (case worldTides w lat lon (now w div 1000) 172800 of
        Rejected m \<Rightarrow> True
      | HttpResponse ok b \<Rightarrow>
          \<not> ok \<or> (case b of Unparsable m \<Rightarrow> True | Malformed m \<Rightarrow> True
                   | Json None \<Rightarrow> True | Json (Some xs) \<Rightarrow> xs = []))"
  by (simp add: fetchTideData_def Let_def split: response.split body.split option.split)

lemma getCoordinates_Inr_requests:
  "getCoordinates w q = (Inr loc, rs) \<Longrightarrow> rs = [Nominatim q]"
  by (auto simp add: getCoordinates_def split: if_splits response.splits body.splits)

lemma getCoordinates_requests:
  "snd (getCoordinates w q) = [] \<or> snd (getCoordinates w q) = [Nominatim q]"
  by (simp add: getCoordinates_def split: response.split body.split)

lemma getCoordinates_Paris:
  "getCoordinates (sampleWorld (HttpResponse True (Json [parisEntry])) f t) (js ''Paris'')
     = (Inr parisLocation, [Nominatim (js ''Paris'')])"
  by (simp add: getCoordinates_def wellFormed_Paris sampleWorld_def parisEntry_def
      parisLocation_def js_eq_iff)

lemma fetchWeatherTry_city:
  "searchCity (city s) = searchCity c \<Longrightarrow>
   fetchWeatherTry w (s\<lparr>city := c\<rparr>) =
     (case fetchWeatherTry w s of
        (r, s', lg) \<Rightarrow> (r, s'\<lparr>city := c\<rparr>, map (\<lambda>(q, st). (q, st\<lparr>city := c\<rparr>)) lg))"
  by (simp add: fetchWeatherTry_def Let_def stamp_def
      split: prod.split sum.split response.split body.split)

lemma fetchWeatherTry_cases:
  "fetchWeatherTry w s = (r, s', lg) \<Longrightarrow>
     (\<forall>(q, st)\<in>set lg. loading st = loading s \<and> error st = error s \<and> tideData st = tideData s
         \<and> (weatherData st = weatherData s \<or> (\<exists>a b c d. q = WorldTides a b c d)))
   \<and> (lg \<noteq> [] \<longrightarrow> snd (hd lg) = s)
   \<and> loading s' = loading s \<and> error s' = error s
   \<and> (case r of Inl m \<Rightarrow> s' = s | Inr u \<Rightarrow> weatherData s' \<noteq> None)"
  using getCoordinates_requests [of w "searchCity (city s)"]
  by (auto simp add: fetchWeatherTry_def Let_def stamp_def dest!: fetchTideData_requestsD
      split: prod.splits sum.splits response.splits body.splits if_splits)

lemma fetchWeather_Paris:
  assumes "fetchWeather (sampleWorld (HttpResponse True (Json [parisEntry]))
             (HttpResponse True (Json cur)) t) (s\<lparr>city := js ''Paris''\<rparr>) = (s', lg)"
  shows "map fst lg =
           [Nominatim (js ''Paris''), OpenMeteo 48.8566 2.3522,
            WorldTides 48.8566 2.3522 1700000000 172800]"
    and "weatherData s' \<noteq> None"
proof -
  let ?w = "sampleWorld (HttpResponse True (Json [parisEntry])) (HttpResponse True (Json cur)) t"
  obtain tides ts where td: "fetchTideData ?w 48.8566 2.3522 = (tides, ts)"
    by (cases "fetchTideData ?w 48.8566 2.3522")
  have ts: "ts = [WorldTides 48.8566 2.3522 1700000000 172800]"
    using fetchTideData_requestsD [OF td] by (simp add: sampleWorld_def)
  have wx: "openMeteo ?w 48.8566 2.3522 = HttpResponse True (Json cur)"
    by (simp add: sampleWorld_def)
  show "map fst lg =
           [Nominatim (js ''Paris''), OpenMeteo 48.8566 2.3522,
            WorldTides 48.8566 2.3522 1700000000 172800]"
    and "weatherData s' \<noteq> None"
    using assms td ts wx
    by (auto simp add: fetchWeather_def fetchWeatherTry_def searchCity_Paris getCoordinates_Paris
        parisLocation_def stamp_def comp_def)
qed

lemma wellFormed_Marseille: "wellFormed (js ''Marseille'')"
  by (simp add: js_def isHighSurrogate_def isLowSurrogate_def)

lemma getCoordinates_wellFormed_requests:
  "wellFormed q \<Longrightarrow> snd (getCoordinates w q) = [Nominatim q]"
  by (simp add: getCoordinates_def split: response.split body.split)

lemma fetchWeatherTry_first_request:
  assumes wf: "wellFormed (searchCity (city s))"
      and body: "fetchWeatherTry w s = (r, s', lg)"
  shows "lg \<noteq> [] \<and> hd lg = (Nominatim (searchCity (city s)), s)"
proof -
  obtain x rs where geo: "getCoordinates w (searchCity (city s)) = (x, rs)"
    by (cases "getCoordinates w (searchCity (city s))")
  have rs: "rs = [Nominatim (searchCity (city s))]"
    using getCoordinates_wellFormed_requests [OF wf, of w] geo by simp
  show ?thesis
    using body geo rs
    by (auto simp add: fetchWeatherTry_def Let_def stamp_def
        split: prod.splits sum.splits response.splits body.splits if_splits)
qed

lemma fetchWeatherTry_not_found:
  assumes "wellFormed (searchCity (city s))"
      and "nominatim w (searchCity (city s)) = HttpResponse True (Json [])"
  shows "fetchWeatherTry w s =
           (Inl (js ''City not found. Please check the spelling.''), s,
            [(Nominatim (searchCity (city s)), s)])"
  using assms by (simp add: fetchWeatherTry_def getCoordinates_def stamp_def)

subsection \<open>The claims\<close>

text \<open>
  In the theorems below a run is \<open>fetchWeather w s = (s', lg)\<close>, read through
  \<open>case fetchWeather w s of (s', lg) \<Rightarrow> ...\<close>: \<open>s'\<close> holds the state cells when the
  handler has finished and \<open>lg\<close> the requests it sent, in order. The run has ended in
  success when \<open>weatherData s'\<close> is set and \<open>error s'\<close> is empty, and in failure with
  message \<open>m\<close> when \<open>error s' = m\<close> and \<open>weatherData s'\<close> is \<open>None\<close>.
\<close>

text \<open>
  \<^bold>\<open>C1.\<close> When geocoding returns a location and the forecast answers 2xx with a
  readable body, the run ends in success whatever the tide service does: the state is not
  loading, the error is empty, the weather data is set, and the tide data is absent
  exactly when the tide fetch was rejected, answered non-2xx, had an unreadable or
  malformed body, had no \<^verbatim>\<open>extremes\<close>, or had an empty list. All three requests
  were sent.
\<close>

theorem tide_outcome_never_fails_the_run:
  assumes geo: "getCoordinates w (searchCity (city s)) = (Inr loc, rs)"
      and wx: "openMeteo w (loc_lat loc) (loc_lon loc) = HttpResponse True (Json cur)"
  shows "case fetchWeather w s of (s', lg) \<Rightarrow>
           \<not> loading s' \<and> error s' = [] \<and> weatherData s' = Some (newWeatherData loc cur)
         \<and> (tideData s' = None \<longleftrightarrow>
              (case worldTides w (loc_lat loc) (loc_lon loc) (now w div 1000) 172800 of
                 Rejected m \<Rightarrow> True
               | HttpResponse ok b \<Rightarrow>
                   \<not> ok \<or> (case b of Unparsable m \<Rightarrow> True | Malformed m \<Rightarrow> True
                            | Json None \<Rightarrow> True | Json (Some xs) \<Rightarrow> xs = [])))
         \<and> map fst lg =
              [Nominatim (searchCity (city s)), OpenMeteo (loc_lat loc) (loc_lon loc),
               WorldTides (loc_lat loc) (loc_lon loc) (now w div 1000) 172800]"
proof -
  obtain tides ts where td: "fetchTideData w (loc_lat loc) (loc_lon loc) = (tides, ts)"
    by (cases "fetchTideData w (loc_lat loc) (loc_lon loc)")
  have ts: "ts = [WorldTides (loc_lat loc) (loc_lon loc) (now w div 1000) 172800]"
    using td by (rule fetchTideData_requestsD)
  have tides: "tides = None \<longleftrightarrow>
            (case worldTides w (loc_lat loc) (loc_lon loc) (now w div 1000) 172800 of
               Rejected m \<Rightarrow> True
             | HttpResponse ok b \<Rightarrow>
                 \<not> ok \<or> (case b of Unparsable m \<Rightarrow> True | Malformed m \<Rightarrow> True
                          | Json None \<Rightarrow> True | Json (Some xs) \<Rightarrow> xs = []))"
    using fetchTideData_None_iff [of w "loc_lat loc" "loc_lon loc"] td by simp
  have rs: "rs = [Nominatim (searchCity (city s))]"
    using geo by (rule getCoordinates_Inr_requests)
  obtain s' lg where run: "fetchWeather w s = (s', lg)"
    by (cases "fetchWeather w s")
  have "s' = s\<lparr>loading := False, error := [], weatherData := Some (newWeatherData loc cur),
                tideData := tides\<rparr>"
     and "map fst lg = rs @ [OpenMeteo (loc_lat loc) (loc_lon loc)] @ ts"
    using geo wx td run
    by (auto simp add: fetchWeather_def fetchWeatherTry_def Let_def stamp_def comp_def js_def)
  then show ?thesis using ts tides rs run by simp
qed

theorem tide_outcome_never_fails_the_run_witness:
  "getCoordinates
     (sampleWorld (HttpResponse True (Json [parisEntry])) (HttpResponse True (Json mainlyClear))
        (Rejected (js ''timeout'')))
     (searchCity (city (initialState\<lparr>city := js ''Paris''\<rparr>)))
     = (Inr parisLocation, [Nominatim (js ''Paris'')])
   \<and> openMeteo
       (sampleWorld (HttpResponse True (Json [parisEntry])) (HttpResponse True (Json mainlyClear))
          (Rejected (js ''timeout'')))
       (loc_lat parisLocation) (loc_lon parisLocation) = HttpResponse True (Json mainlyClear)
   \<and> (case fetchWeather
         (sampleWorld (HttpResponse True (Json [parisEntry])) (HttpResponse True (Json mainlyClear))
            (Rejected (js ''timeout'')))
         (initialState\<lparr>city := js ''Paris''\<rparr>) of
        (s', lg) \<Rightarrow>
          \<not> loading s' \<and> error s' = [] \<and> weatherData s' = Some (newWeatherData parisLocation mainlyClear)
        \<and> tideData s' = None
        \<and> map fst lg =
            [Nominatim (js ''Paris''), OpenMeteo 48.8566 2.3522,
             WorldTides 48.8566 2.3522 1700000000 172800])"
proof -
  let ?w = "sampleWorld (HttpResponse True (Json [parisEntry]))
              (HttpResponse True (Json mainlyClear)) (Rejected (js ''timeout''))"
  let ?s = "initialState\<lparr>city := js ''Paris''\<rparr>"
  have geo: "getCoordinates ?w (searchCity (city ?s)) = (Inr parisLocation, [Nominatim (js ''Paris'')])"
    by (simp add: searchCity_Paris getCoordinates_Paris)
  have wx: "openMeteo ?w (loc_lat parisLocation) (loc_lon parisLocation)
              = HttpResponse True (Json mainlyClear)"
    by (simp add: sampleWorld_def)
  obtain s' lg where run: "fetchWeather ?w ?s = (s', lg)"
    by (cases "fetchWeather ?w ?s")
  have "\<not> loading s' \<and> error s' = [] \<and> weatherData s' = Some (newWeatherData parisLocation mainlyClear)
        \<and> tideData s' = None
        \<and> map fst lg =
            [Nominatim (js ''Paris''), OpenMeteo 48.8566 2.3522,
             WorldTides 48.8566 2.3522 1700000000 172800]"
    using tide_outcome_never_fails_the_run [OF geo wx] run
    by (simp add: sampleWorld_def parisLocation_def searchCity_Paris)
  then show ?thesis using geo wx run by simp
qed

text \<open>
  \<^bold>\<open>C2.\<close> When the geocoding request for the searched name is sent and answered 2xx
  with an empty list of matches, the run ends in failure with exactly the message
  \<^verbatim>\<open>City not found. Please check the spelling.\<close>; the geocoding request is the only
  request of the run, so neither the forecast nor the tide service is called.
\<close>

theorem city_not_found_stops_the_run:
  assumes "wellFormed (searchCity (city s))"
      and "nominatim w (searchCity (city s)) = HttpResponse True (Json [])"
  shows "fetchWeather w s =
           (s\<lparr>loading := False, error := js ''City not found. Please check the spelling.'',
              weatherData := None, tideData := None\<rparr>,
            [(Nominatim (searchCity (city s)),
              s\<lparr>loading := True, error := [], weatherData := None, tideData := None\<rparr>)])"
  using assms
  by (simp add: fetchWeather_def fetchWeatherTry_def getCoordinates_def stamp_def js_Nil_iff)

theorem city_not_found_stops_the_run_witness:
  "wellFormed (searchCity (city (initialState\<lparr>city := js ''Zzzzznotaplace''\<rparr>)))
   \<and> nominatim
       (sampleWorld (HttpResponse True (Json [])) (HttpResponse True (Json mainlyClear))
          (HttpResponse True (Json (Some sevenExtremes))))
       (searchCity (city (initialState\<lparr>city := js ''Zzzzznotaplace''\<rparr>)))
       = HttpResponse True (Json [])
   \<and> fetchWeather
       (sampleWorld (HttpResponse True (Json [])) (HttpResponse True (Json mainlyClear))
          (HttpResponse True (Json (Some sevenExtremes))))
       (initialState\<lparr>city := js ''Zzzzznotaplace''\<rparr>)
       = (initialState\<lparr>city := js ''Zzzzznotaplace'',
            error := js ''City not found. Please check the spelling.''\<rparr>,
          [(Nominatim (js ''Zzzzznotaplace''),
            initialState\<lparr>city := js ''Zzzzznotaplace'', loading := True\<rparr>)])"
proof -
  let ?w = "sampleWorld (HttpResponse True (Json [])) (HttpResponse True (Json mainlyClear))
              (HttpResponse True (Json (Some sevenExtremes)))"
  let ?s = "initialState\<lparr>city := js ''Zzzzznotaplace''\<rparr>"
  have sc: "searchCity (js ''Zzzzznotaplace'') = js ''Zzzzznotaplace''"
    by (simp add: searchCity_def trim_def js_def isWhiteSpace_def)
  have wf: "wellFormed (searchCity (city ?s))"
    by (simp add: sc) (simp add: js_def isHighSurrogate_def isLowSurrogate_def)
  have geo: "nominatim ?w (searchCity (city ?s)) = HttpResponse True (Json [])"
    by (simp add: sampleWorld_def)
  show ?thesis
    using wf geo city_not_found_stops_the_run [OF wf geo]
    by (simp add: sc initialState_def js_Nil_iff)
qed

text \<open>
  \<^bold>\<open>C3.\<close> When geocoding returns a location and the forecast fetch fails (it is
  rejected, or answered non-2xx), the run ends in failure with the message of that
  failure: the message of the rejection, or \<^verbatim>\<open>Failed to fetch weather data\<close>. The
  weather data and the tide data stay \<open>None\<close>, and the requests of the run are the
  geocoding and the forecast request only: the tide service is not called.
\<close>

theorem weather_failure_stops_the_run:
  assumes geo: "getCoordinates w (searchCity (city s)) = (Inr loc, rs)"
      and fail: "\<forall>b. openMeteo w (loc_lat loc) (loc_lon loc) \<noteq> HttpResponse True b"
  shows "case fetchWeather w s of (s', lg) \<Rightarrow>
           s' = s\<lparr>loading := False,
                   error := (case openMeteo w (loc_lat loc) (loc_lon loc) of
                               Rejected m \<Rightarrow> m
                             | HttpResponse ok b \<Rightarrow> js ''Failed to fetch weather data''),
                   weatherData := None, tideData := None\<rparr>
         \<and> map fst lg = [Nominatim (searchCity (city s)), OpenMeteo (loc_lat loc) (loc_lon loc)]"
proof -
  have rs: "rs = [Nominatim (searchCity (city s))]"
    using geo by (rule getCoordinates_Inr_requests)
  obtain s' lg where run: "fetchWeather w s = (s', lg)"
    by (cases "fetchWeather w s")
  show ?thesis
  proof (cases "openMeteo w (loc_lat loc) (loc_lon loc)")
    case (Rejected m)
    then show ?thesis using geo run rs
      by (auto simp add: fetchWeather_def fetchWeatherTry_def Let_def stamp_def)
  next
    case (HttpResponse ok b)
    with fail have "\<not> ok" by auto
    with HttpResponse show ?thesis using geo run rs
      by (auto simp add: fetchWeather_def fetchWeatherTry_def Let_def stamp_def)
  qed
qed

theorem weather_failure_stops_the_run_witness:
  "getCoordinates
     (sampleWorld (HttpResponse True (Json [parisEntry]))
        (HttpResponse False (Unparsable (js ''Unexpected token'')))
        (HttpResponse True (Json (Some sevenExtremes))))
     (searchCity (city (initialState\<lparr>city := js ''Paris''\<rparr>)))
     = (Inr parisLocation, [Nominatim (js ''Paris'')])
   \<and> (\<forall>b. openMeteo
         (sampleWorld (HttpResponse True (Json [parisEntry]))
            (HttpResponse False (Unparsable (js ''Unexpected token'')))
            (HttpResponse True (Json (Some sevenExtremes))))
         (loc_lat parisLocation) (loc_lon parisLocation) \<noteq> HttpResponse True b)
   \<and> (case fetchWeather
         (sampleWorld (HttpResponse True (Json [parisEntry]))
            (HttpResponse False (Unparsable (js ''Unexpected token'')))
            (HttpResponse True (Json (Some sevenExtremes))))
         (initialState\<lparr>city := js ''Paris''\<rparr>) of
        (s', lg) \<Rightarrow>
          s' = initialState\<lparr>city := js ''Paris'', error := js ''Failed to fetch weather data''\<rparr>
        \<and> map fst lg = [Nominatim (js ''Paris''), OpenMeteo 48.8566 2.3522])"
proof -
  let ?w = "sampleWorld (HttpResponse True (Json [parisEntry]))
              (HttpResponse False (Unparsable (js ''Unexpected token'')))
              (HttpResponse True (Json (Some sevenExtremes)))"
  let ?s = "initialState\<lparr>city := js ''Paris''\<rparr>"
  have geo: "getCoordinates ?w (searchCity (city ?s)) = (Inr parisLocation, [Nominatim (js ''Paris'')])"
    by (simp add: searchCity_Paris getCoordinates_Paris)
  have fail: "\<forall>b. openMeteo ?w (loc_lat parisLocation) (loc_lon parisLocation) \<noteq> HttpResponse True b"
    by (simp add: sampleWorld_def)
  obtain s' lg where run: "fetchWeather ?w ?s = (s', lg)"
    by (cases "fetchWeather ?w ?s")
  have "s' = initialState\<lparr>city := js ''Paris'', error := js ''Failed to fetch weather data''\<rparr>
        \<and> map fst lg = [Nominatim (js ''Paris''), OpenMeteo 48.8566 2.3522]"
    using weather_failure_stops_the_run [OF geo fail] run
    by (simp add: sampleWorld_def parisLocation_def searchCity_Paris initialState_def)
  then show ?thesis using geo fail run by simp
qed

text \<open>
  \<^bold>\<open>C4.\<close> On integer codes the cascade of \<open>getWeatherIcon\<close> is this table of
  ranges: 0 gives the sun by day and the moon by night; 1 to 3 the sun behind a small
  cloud by day and the moon by night; 4 to 48 fog; 49 to 55 the sun behind a rain cloud
  (drizzle); 56 to 65 the rain cloud; 66 to 77 the snow cloud; 78 to 82 the rain cloud
  (showers); 83 to 86 the snow cloud (snow showers); 95 and above the thunder cloud;
  87 to 94 the thermometer. The day and night icons of code 0 differ, code 3 by day
  is the small-cloud icon and not the sun, and code 96 is the thunder cloud by day and
  by night.
\<close>

theorem getWeatherIcon_ranges:
  "(code = 0 \<longrightarrow> getWeatherIcon code day = (if day then iconSun else iconMoon))
   \<and> (1 \<le> code \<and> code \<le> 3 \<longrightarrow>
        getWeatherIcon code day = (if day then iconSunSmallCloud else iconMoon))
   \<and> (4 \<le> code \<and> code \<le> 48 \<longrightarrow> getWeatherIcon code day = iconFog)
   \<and> (49 \<le> code \<and> code \<le> 55 \<longrightarrow> getWeatherIcon code day = iconSunRainCloud)
   \<and> (56 \<le> code \<and> code \<le> 65 \<longrightarrow> getWeatherIcon code day = iconRainCloud)
   \<and> (66 \<le> code \<and> code \<le> 77 \<longrightarrow> getWeatherIcon code day = iconSnowCloud)
   \<and> (78 \<le> code \<and> code \<le> 82 \<longrightarrow> getWeatherIcon code day = iconRainCloud)
   \<and> (83 \<le> code \<and> code \<le> 86 \<longrightarrow> getWeatherIcon code day = iconSnowCloud)
   \<and> (95 \<le> code \<longrightarrow> getWeatherIcon code day = iconThunder)
   \<and> (87 \<le> code \<and> code \<le> 94 \<longrightarrow> getWeatherIcon code day = iconThermometer)
   \<and> getWeatherIcon 0 True \<noteq> getWeatherIcon 0 False
   \<and> getWeatherIcon 3 True = iconSunSmallCloud
   \<and> getWeatherIcon 3 True \<noteq> getWeatherIcon 0 True
   \<and> getWeatherIcon 96 False = iconThunder
   \<and> getWeatherIcon 96 True = iconThunder"
  by (simp add: getWeatherIcon_def icon_defs)

theorem getWeatherIcon_ranges_witness:
  "getWeatherIcon 0 True = iconSun \<and> getWeatherIcon 0 False = iconMoon
   \<and> getWeatherIcon 2 True = iconSunSmallCloud \<and> getWeatherIcon 2 False = iconMoon
   \<and> getWeatherIcon 45 True = iconFog
   \<and> getWeatherIcon 50 True = iconSunRainCloud
   \<and> getWeatherIcon 61 False = iconRainCloud
   \<and> getWeatherIcon 71 True = iconSnowCloud
   \<and> getWeatherIcon 80 False = iconRainCloud
   \<and> getWeatherIcon 85 True = iconSnowCloud
   \<and> getWeatherIcon 99 False = iconThunder
   \<and> getWeatherIcon 90 True = iconThermometer"
  using getWeatherIcon_ranges [of 0 True] getWeatherIcon_ranges [of 0 False]
    getWeatherIcon_ranges [of 2 True] getWeatherIcon_ranges [of 2 False]
    getWeatherIcon_ranges [of 45 True] getWeatherIcon_ranges [of 50 True]
    getWeatherIcon_ranges [of 61 False] getWeatherIcon_ranges [of 71 True]
    getWeatherIcon_ranges [of 80 False] getWeatherIcon_ranges [of 85 True]
    getWeatherIcon_ranges [of 99 False] getWeatherIcon_ranges [of 90 True]
  by simp

text \<open>
  \<^bold>\<open>C5.\<close> \<open>getWeatherDescription\<close> is a lookup in a table of 24 codes: each code
  of the table gives its own description (code 1 gives \<^verbatim>\<open>Mainly clear\<close>), and every
  other integer code gives \<^verbatim>\<open>Unknown\<close>. The function has no failing branch.
\<close>

theorem getWeatherDescription_table:
  "map fst descriptions =
     [0, 1, 2, 3, 45, 48, 51, 53, 55, 61, 63, 65, 71, 73, 75, 77, 80, 81, 82, 85, 86, 95, 96, 99]
   \<and> length descriptions = 24
   \<and> getWeatherDescription 0 = js ''Clear sky''
   \<and> getWeatherDescription 1 = js ''Mainly clear''
   \<and> getWeatherDescription 2 = js ''Partly cloudy''
   \<and> getWeatherDescription 3 = js ''Overcast''
   \<and> getWeatherDescription 45 = js ''Foggy''
   \<and> getWeatherDescription 48 = js ''Depositing rime fog''
   \<and> getWeatherDescription 51 = js ''Light drizzle''
   \<and> getWeatherDescription 53 = js ''Moderate drizzle''
   \<and> getWeatherDescription 55 = js ''Dense drizzle''
   \<and> getWeatherDescription 61 = js ''Slight rain''
   \<and> getWeatherDescription 63 = js ''Moderate rain''
   \<and> getWeatherDescription 65 = js ''Heavy rain''
   \<and> getWeatherDescription 71 = js ''Slight snow''
   \<and> getWeatherDescription 73 = js ''Moderate snow''
   \<and> getWeatherDescription 75 = js ''Heavy snow''
   \<and> getWeatherDescription 77 = js ''Snow grains''
   \<and> getWeatherDescription 80 = js ''Slight rain showers''
   \<and> getWeatherDescription 81 = js ''Moderate rain showers''
   \<and> getWeatherDescription 82 = js ''Violent rain showers''
   \<and> getWeatherDescription 85 = js ''Slight snow showers''
   \<and> getWeatherDescription 86 = js ''Heavy snow showers''
   \<and> getWeatherDescription 95 = js ''Thunderstorm''
   \<and> getWeatherDescription 96 = js ''Thunderstorm with slight hail''
   \<and> getWeatherDescription 99 = js ''Thunderstorm with heavy hail''
   \<and> (code \<notin> {0, 1, 2, 3, 45, 48, 51, 53, 55, 61, 63, 65, 71, 73, 75, 77, 80, 81, 82, 85,
                 86, 95, 96, 99}
        \<longrightarrow> getWeatherDescription code = js ''Unknown'')"
  by (simp add: getWeatherDescription_def descriptions_def js_Nil_iff)

theorem getWeatherDescription_table_witness:
  "(4 :: int) \<notin> {0, 1, 2, 3, 45, 48, 51, 53, 55, 61, 63, 65, 71, 73, 75, 77, 80, 81, 82, 85,
                  86, 95, 96, 99}
   \<and> getWeatherDescription 4 = js ''Unknown''
   \<and> (- 1 :: int) \<notin> {0, 1, 2, 3, 45, 48, 51, 53, 55, 61, 63, 65, 71, 73, 75, 77, 80, 81, 82,
                      85, 86, 95, 96, 99}
   \<and> getWeatherDescription (- 1) = js ''Unknown''
   \<and> getWeatherDescription 1 = js ''Mainly clear''"
  using getWeatherDescription_table [of 4] getWeatherDescription_table [of "- 1"]
  by simp

text \<open>
  \<^bold>\<open>C9.\<close> At night the codes 0, 1, 2 and 3 all give the same icon, the moon.
\<close>

theorem night_icons_coincide:
  "getWeatherIcon 0 False = iconMoon \<and> getWeatherIcon 1 False = iconMoon
   \<and> getWeatherIcon 2 False = iconMoon \<and> getWeatherIcon 3 False = iconMoon"
  by (simp add: getWeatherIcon_def)

text \<open>
  \<^bold>\<open>C10.\<close> A negative integer code is not 0 and is at most 3, so it gets the icon
  of the codes 1 to 3 (the sun behind a small cloud by day, the moon by night) and not
  the thermometer; the thermometer is the icon of the integer codes 87 to 94 and of no
  other integer code.
\<close>

theorem negative_codes_fall_into_partly_cloudy:
  "(code < 0 \<longrightarrow>
      getWeatherIcon code day = (if day then iconSunSmallCloud else iconMoon)
      \<and> getWeatherIcon code day = getWeatherIcon 2 day
      \<and> getWeatherIcon code day \<noteq> iconThermometer)
   \<and> (getWeatherIcon code day = iconThermometer \<longleftrightarrow> 87 \<le> code \<and> code \<le> 94)"
  by (simp add: getWeatherIcon_def icon_defs)

theorem negative_codes_fall_into_partly_cloudy_witness:
  "(- 5 :: int) < 0
   \<and> getWeatherIcon (- 5) True = iconSunSmallCloud
   \<and> getWeatherIcon (- 5) False = iconMoon
   \<and> getWeatherIcon (- 5) True \<noteq> iconThermometer
   \<and> getWeatherIcon 87 True = iconThermometer
   \<and> getWeatherIcon 94 False = iconThermometer
   \<and> getWeatherIcon 86 True \<noteq> iconThermometer
   \<and> getWeatherIcon 95 True \<noteq> iconThermometer"
  using negative_codes_fall_into_partly_cloudy [of "- 5" True]
    negative_codes_fall_into_partly_cloudy [of "- 5" False]
    negative_codes_fall_into_partly_cloudy [of 87 True]
    negative_codes_fall_into_partly_cloudy [of 94 False]
    negative_codes_fall_into_partly_cloudy [of 86 True]
    negative_codes_fall_into_partly_cloudy [of 95 True]
  by (simp add: icon_defs)

text \<open>
  \<^bold>\<open>C6.\<close> A city cell that holds only white space (or nothing) is searched as
  \<^verbatim>\<open>Marseille\<close>: the handler replaces the name before geocoding, so the first
  request of the run is the geocoding request for \<^verbatim>\<open>Marseille\<close>, sent from the
  reset state. The run is the run with the city cell set to \<^verbatim>\<open>Marseille\<close>,
  request for request and cell for cell, apart from the city cell itself, which the
  handler never writes.
\<close>

theorem blank_city_runs_as_Marseille:
  assumes "\<forall>ch\<in>set c. isWhiteSpace ch"
  shows "searchCity c = js ''Marseille''
       \<and> searchCity (js ''Marseille'') = js ''Marseille''
       \<and> fetchWeather w (s\<lparr>city := c\<rparr>) =
           (case fetchWeather w (s\<lparr>city := js ''Marseille''\<rparr>) of
              (s', lg) \<Rightarrow> (s'\<lparr>city := c\<rparr>, map (\<lambda>(q, st). (q, st\<lparr>city := c\<rparr>)) lg))
       \<and> (case fetchWeather w (s\<lparr>city := c\<rparr>) of
             (s', lg) \<Rightarrow>
               lg \<noteq> []
             \<and> hd lg =
                 (Nominatim (js ''Marseille''),
                  s\<lparr>city := c, loading := True, error := [], weatherData := None,
                    tideData := None\<rparr>))
       \<and> (case fetchWeather w (s\<lparr>city := js ''Marseille''\<rparr>) of
             (s', lg) \<Rightarrow> lg \<noteq> [] \<and> fst (hd lg) = Nominatim (js ''Marseille''))"
proof -
  have sc: "searchCity c = js ''Marseille''"
    using assms by (simp add: searchCity_def trim_whitespace)
  have sm: "searchCity (js ''Marseille'') = js ''Marseille''"
    by (simp add: searchCity_def trim_Marseille js_Nil_iff)
  define s0 where
    "s0 = s\<lparr>city := js ''Marseille'', loading := True, error := js [],
            weatherData := None, tideData := None\<rparr>"
  obtain r s1 lg1 where t0: "fetchWeatherTry w s0 = (r, s1, lg1)"
    by (cases "fetchWeatherTry w s0")
  have "fetchWeatherTry w (s0\<lparr>city := c\<rparr>) =
     (case fetchWeatherTry w s0 of
        (r, s', lg) \<Rightarrow> (r, s'\<lparr>city := c\<rparr>, map (\<lambda>(q, st). (q, st\<lparr>city := c\<rparr>)) lg))"
    by (rule fetchWeatherTry_city) (simp add: sc sm s0_def)
  then have t1: "fetchWeatherTry w (s0\<lparr>city := c\<rparr>) =
      (r, s1\<lparr>city := c\<rparr>, map (\<lambda>(q, st). (q, st\<lparr>city := c\<rparr>)) lg1)"
    by (simp add: t0)
  have e0: "s\<lparr>city := js ''Marseille''\<rparr>\<lparr>loading := True, error := js [],
            weatherData := None, tideData := None\<rparr> = s0"
    by (simp add: s0_def)
  have e1: "s\<lparr>city := c\<rparr>\<lparr>loading := True, error := js [],
            weatherData := None, tideData := None\<rparr> = s0\<lparr>city := c\<rparr>"
    by (simp add: s0_def)
  have same: "fetchWeather w (s\<lparr>city := c\<rparr>) =
           (case fetchWeather w (s\<lparr>city := js ''Marseille''\<rparr>) of
              (s', lg) \<Rightarrow> (s'\<lparr>city := c\<rparr>, map (\<lambda>(q, st). (q, st\<lparr>city := c\<rparr>)) lg))"
    unfolding fetchWeather_def e0 e1 t0 t1 by (cases r) simp_all
  have wf0: "wellFormed (searchCity (city s0))"
    by (simp add: s0_def sm wellFormed_Marseille)
  have first0: "lg1 \<noteq> [] \<and> hd lg1 = (Nominatim (js ''Marseille''), s0)"
    using fetchWeatherTry_first_request [OF wf0 t0] by (simp add: s0_def sm)
  have wf1: "wellFormed (searchCity (city (s0\<lparr>city := c\<rparr>)))"
    by (simp add: sc wellFormed_Marseille)
  have first1: "map (\<lambda>(q, st). (q, st\<lparr>city := c\<rparr>)) lg1 \<noteq> []
      \<and> hd (map (\<lambda>(q, st). (q, st\<lparr>city := c\<rparr>)) lg1) = (Nominatim (js ''Marseille''), s0\<lparr>city := c\<rparr>)"
    using fetchWeatherTry_first_request [OF wf1 t1] by (simp add: sc)
  have runM: "snd (fetchWeather w (s\<lparr>city := js ''Marseille''\<rparr>)) = lg1"
    unfolding fetchWeather_def e0 t0 by (cases r) simp_all
  have runC: "snd (fetchWeather w (s\<lparr>city := c\<rparr>)) = map (\<lambda>(q, st). (q, st\<lparr>city := c\<rparr>)) lg1"
    unfolding fetchWeather_def e1 t1 by (cases r) simp_all
  have s0c: "s0\<lparr>city := c\<rparr> =
      s\<lparr>city := c, loading := True, error := [], weatherData := None, tideData := None\<rparr>"
    by (simp add: s0_def)
  have blank: "case fetchWeather w (s\<lparr>city := c\<rparr>) of
             (s', lg) \<Rightarrow>
               lg \<noteq> []
             \<and> hd lg =
                 (Nominatim (js ''Marseille''),
                  s\<lparr>city := c, loading := True, error := [], weatherData := None,
                    tideData := None\<rparr>)"
    using first1 runC s0c by (cases "fetchWeather w (s\<lparr>city := c\<rparr>)") simp
  have named: "case fetchWeather w (s\<lparr>city := js ''Marseille''\<rparr>) of
             (s', lg) \<Rightarrow> lg \<noteq> [] \<and> fst (hd lg) = Nominatim (js ''Marseille'')"
    using first0 runM by (cases "fetchWeather w (s\<lparr>city := js ''Marseille''\<rparr>)") simp
  from sc sm same blank named show ?thesis by blast
qed

theorem blank_city_runs_as_Marseille_witness:
  "isWhiteSpace 0x20 \<and> isWhiteSpace 0x09 \<and> isWhiteSpace 0xA0
   \<and> searchCity [0x20, 0x09, 0xA0] = js ''Marseille''
   \<and> searchCity [] = js ''Marseille''
   \<and> fetchWeather
       (sampleWorld (HttpResponse True (Json [])) (HttpResponse True (Json mainlyClear))
          (Rejected (js ''timeout'')))
       (initialState\<lparr>city := [0x20, 0x09, 0xA0]\<rparr>) =
       (case fetchWeather
          (sampleWorld (HttpResponse True (Json [])) (HttpResponse True (Json mainlyClear))
             (Rejected (js ''timeout'')))
          (initialState\<lparr>city := js ''Marseille''\<rparr>) of
          (s', lg) \<Rightarrow>
            (s'\<lparr>city := [0x20, 0x09, 0xA0]\<rparr>,
             map (\<lambda>(q, st). (q, st\<lparr>city := [0x20, 0x09, 0xA0]\<rparr>)) lg))
   \<and> (case fetchWeather
         (sampleWorld (HttpResponse True (Json [])) (HttpResponse True (Json mainlyClear))
            (Rejected (js ''timeout'')))
         (initialState\<lparr>city := [0x20, 0x09, 0xA0]\<rparr>) of
         (s', lg) \<Rightarrow>
           lg \<noteq> []
         \<and> hd lg =
             (Nominatim (js ''Marseille''),
              initialState\<lparr>city := [0x20, 0x09, 0xA0], loading := True, error := [],
                weatherData := None, tideData := None\<rparr>))
   \<and> (case fetchWeather
         (sampleWorld (HttpResponse True (Json [])) (HttpResponse True (Json mainlyClear))
            (Rejected (js ''timeout'')))
         (initialState\<lparr>city := []\<rparr>) of
         (s', lg) \<Rightarrow>
           lg \<noteq> []
         \<and> hd lg =
             (Nominatim (js ''Marseille''),
              initialState\<lparr>city := [], loading := True, error := [],
                weatherData := None, tideData := None\<rparr>))
   \<and> fetchWeather
       (sampleWorld (HttpResponse True (Json [])) (HttpResponse True (Json mainlyClear))
          (Rejected (js ''timeout'')))
       (initialState\<lparr>city := [0x20, 0x09, 0xA0]\<rparr>) =
       (initialState\<lparr>city := [0x20, 0x09, 0xA0],
          error := js ''City not found. Please check the spelling.''\<rparr>,
        [(Nominatim (js ''Marseille''),
          initialState\<lparr>city := [0x20, 0x09, 0xA0], loading := True\<rparr>)])"
proof -
  let ?w = "sampleWorld (HttpResponse True (Json [])) (HttpResponse True (Json mainlyClear))
              (Rejected (js ''timeout''))"
  have sp: "isWhiteSpace 0x20" and tab: "isWhiteSpace 0x09" and nbsp: "isWhiteSpace 0xA0"
    by (simp_all add: isWhiteSpace_def)
  then have ws: "\<forall>ch\<in>set [0x20, 0x09, 0xA0]. isWhiteSpace ch"
    by simp
  have none: "\<forall>ch\<in>set ([] :: jsstring). isWhiteSpace ch"
    by simp
  note blank = blank_city_runs_as_Marseille [OF ws, where w = ?w and s = initialState]
  note empty = blank_city_runs_as_Marseille [OF none, where w = ?w and s = initialState]
  note r1 = blank [THEN conjunct1]
  note r2 = empty [THEN conjunct1]
  note r3 = blank [THEN conjunct2, THEN conjunct2, THEN conjunct1]
  note r4 = blank [THEN conjunct2, THEN conjunct2, THEN conjunct2, THEN conjunct1]
  note r5 = empty [THEN conjunct2, THEN conjunct2, THEN conjunct2, THEN conjunct1]
  let ?s0 = "initialState\<lparr>city := [0x20, 0x09, 0xA0], loading := True\<rparr>"
  have reset: "initialState\<lparr>city := [0x20, 0x09, 0xA0]\<rparr>\<lparr>loading := True, error := js [],
                 weatherData := None, tideData := None\<rparr> = ?s0"
    by (simp add: initialState_def)
  have wf: "wellFormed (searchCity (city ?s0))"
    by (simp add: r1 wellFormed_Marseille)
  have geo: "nominatim ?w (searchCity (city ?s0)) = HttpResponse True (Json [])"
    by (simp add: sampleWorld_def)
  have r6: "fetchWeather ?w (initialState\<lparr>city := [0x20, 0x09, 0xA0]\<rparr>) =
       (initialState\<lparr>city := [0x20, 0x09, 0xA0],
          error := js ''City not found. Please check the spelling.''\<rparr>,
        [(Nominatim (js ''Marseille''),
          initialState\<lparr>city := [0x20, 0x09, 0xA0], loading := True\<rparr>)])"
    unfolding fetchWeather_def reset fetchWeatherTry_not_found [OF wf geo]
    by (simp add: r1 initialState_def)
  show ?thesis
    by (intro conjI) (rule sp tab nbsp r1 r2 r3 r4 r5 r6)+
qed

text \<open>
  \<^bold>\<open>C7.\<close> The tide request asks for 172800 seconds from the call time in whole
  seconds (the clock in milliseconds, divided by 1000, rounded down). On a 2xx answer
  whose \<^verbatim>\<open>extremes\<close> list is not empty, the result is the list of the first six
  upstream events at most, in upstream order, each with its height and time stamp, and
  with the type \<^verbatim>\<open>High Tide\<close> for the label \<^verbatim>\<open>High\<close> and \<^verbatim>\<open>Low Tide\<close> for
  every other label.
\<close>

theorem fetchTideData_window_and_events:
  assumes "worldTides w lat lon (now w div 1000) 172800 = HttpResponse True (Json (Some xs))"
      and "xs \<noteq> []"
  shows "fetchTideData w lat lon =
           (Some (map (\<lambda>x. \<lparr>tide_type = (if ext_type x = js ''High'' then js ''High Tide''
                                          else js ''Low Tide''),
                             tide_height = ext_height x,
                             tide_time = newDate (dt x * 1000)\<rparr>) (take 6 xs)),
            [WorldTides lat lon (now w div 1000) 172800])"
  using assms by (simp add: fetchTideData_def Let_def take_map tideOfExtreme_def [abs_def])

theorem fetchTideData_window_and_events_witness:
  "worldTides
     (sampleWorld (HttpResponse True (Json [parisEntry])) (HttpResponse True (Json mainlyClear))
        (HttpResponse True (Json (Some sevenExtremes))))
     48.8566 2.3522
     (now (sampleWorld (HttpResponse True (Json [parisEntry]))
             (HttpResponse True (Json mainlyClear))
             (HttpResponse True (Json (Some sevenExtremes)))) div 1000)
     172800 = HttpResponse True (Json (Some sevenExtremes))
   \<and> sevenExtremes \<noteq> []
   \<and> fetchTideData
       (sampleWorld (HttpResponse True (Json [parisEntry])) (HttpResponse True (Json mainlyClear))
          (HttpResponse True (Json (Some sevenExtremes))))
       48.8566 2.3522 =
       (Some
          [\<lparr>tide_type = js ''Low Tide'', tide_height = 0.4, tide_time = Some 1700003600000\<rparr>,
           \<lparr>tide_type = js ''High Tide'', tide_height = 1.9, tide_time = Some 1700025900000\<rparr>,
           \<lparr>tide_type = js ''Low Tide'', tide_height = 0.5, tide_time = Some 1700048200000\<rparr>,
           \<lparr>tide_type = js ''High Tide'', tide_height = 2.0, tide_time = Some 1700070500000\<rparr>,
           \<lparr>tide_type = js ''Low Tide'', tide_height = 0.3, tide_time = Some 1700092800000\<rparr>,
           \<lparr>tide_type = js ''High Tide'', tide_height = 2.1, tide_time = Some 1700115100000\<rparr>],
        [WorldTides 48.8566 2.3522 1700000000 172800])"
proof -
  let ?w = "sampleWorld (HttpResponse True (Json [parisEntry]))
              (HttpResponse True (Json mainlyClear))
              (HttpResponse True (Json (Some sevenExtremes)))"
  have resp: "worldTides ?w 48.8566 2.3522 (now ?w div 1000) 172800
                = HttpResponse True (Json (Some sevenExtremes))"
    by (simp add: sampleWorld_def)
  have ne: "sevenExtremes \<noteq> []"
    by (simp add: sevenExtremes_def)
  show ?thesis
    using resp ne fetchTideData_window_and_events [OF resp ne]
    by (simp add: sampleWorld_def sevenExtremes_def sampleExtreme_def newDate_def js_eq_iff)
qed

text \<open>
  \<^bold>\<open>C8.\<close> In every run, each request is sent with the state cells set to loading,
  with an empty error and no tide data, and with no weather data unless the request is
  the tide request (which follows the new weather data); the first request is sent from
  exactly the submitted state with these four cells reset. When the handler has
  finished, the state is not loading, and it is either a success (weather data set, error
  empty) or a failure (no weather data, no tide data), never both. Which of the two is
  decided by the \<^verbatim>\<open>try\<close> block run from the reset state: when it throws a message,
  the error cell holds exactly that message and there is neither weather nor tide data;
  when it returns normally, the error cell is empty and the weather data is set.
\<close>

theorem submission_enters_and_leaves_loading:
  "case fetchWeather w s of (s', lg) \<Rightarrow>
     (\<forall>(q, st)\<in>set lg. loading st \<and> error st = [] \<and> tideData st = None
         \<and> (weatherData st = None \<or> (\<exists>a b c d. q = WorldTides a b c d)))
   \<and> (lg \<noteq> [] \<longrightarrow>
        snd (hd lg) = s\<lparr>loading := True, error := [], weatherData := None, tideData := None\<rparr>)
   \<and> \<not> loading s'
   \<and> ((weatherData s' \<noteq> None \<and> error s' = []) \<noteq> (weatherData s' = None \<and> tideData s' = None))
   \<and> (case fst (fetchWeatherTry w
                   (s\<lparr>loading := True, error := [], weatherData := None, tideData := None\<rparr>)) of
         Inl m \<Rightarrow>
           s' = s\<lparr>loading := False, error := m, weatherData := None, tideData := None\<rparr>
       | Inr u \<Rightarrow> error s' = [] \<and> weatherData s' \<noteq> None)"
proof -
  define s0 where
    "s0 = s\<lparr>loading := True, error := js [], weatherData := None, tideData := None\<rparr>"
  obtain r s1 lg1 where t0: "fetchWeatherTry w s0 = (r, s1, lg1)"
    by (cases "fetchWeatherTry w s0")
  note c = fetchWeatherTry_cases [OF t0]
  obtain s' lg where run: "fetchWeather w s = (s', lg)"
    by (cases "fetchWeather w s")
  have lg: "lg = lg1"
    and s': "s' = (case r of Inl m \<Rightarrow> s1\<lparr>error := m, loading := False\<rparr>
                   | Inr u \<Rightarrow> s1\<lparr>loading := False\<rparr>)"
    using run t0 unfolding fetchWeather_def s0_def [symmetric] by (simp_all split: sum.splits)
  have "(\<forall>(q, st)\<in>set lg. loading st \<and> error st = [] \<and> tideData st = None
         \<and> (weatherData st = None \<or> (\<exists>a b c d. q = WorldTides a b c d)))
     \<and> (lg \<noteq> [] \<longrightarrow> snd (hd lg) = s0)
     \<and> \<not> loading s'
     \<and> ((weatherData s' \<noteq> None \<and> error s' = []) \<noteq> (weatherData s' = None \<and> tideData s' = None))
     \<and> (case r of
           Inl m \<Rightarrow>
             s' = s\<lparr>loading := False, error := m, weatherData := None, tideData := None\<rparr>
         | Inr u \<Rightarrow> error s' = [] \<and> weatherData s' \<noteq> None)"
  proof (cases r)
    case (Inl m)
    then show ?thesis using c lg s' by (auto simp add: s0_def)
  next
    case (Inr u)
    then show ?thesis using c lg s' by (auto simp add: s0_def)
  qed
  moreover have "fst (fetchWeatherTry w
                   (s\<lparr>loading := True, error := [], weatherData := None, tideData := None\<rparr>)) = r"
    using t0 by (simp add: s0_def)
  ultimately show ?thesis using run by (simp add: s0_def)
qed

theorem submission_enters_and_leaves_loading_witness:
  "(case fetchWeather
     (sampleWorld (HttpResponse True (Json [parisEntry])) (HttpResponse True (Json mainlyClear))
        (HttpResponse True (Json (Some sevenExtremes))))
     (initialState\<lparr>error := js ''Failed to fetch weather data'', city := js ''Paris''\<rparr>) of
     (s', lg) \<Rightarrow>
       map fst lg =
         [Nominatim (js ''Paris''), OpenMeteo 48.8566 2.3522,
          WorldTides 48.8566 2.3522 1700000000 172800]
     \<and> map (\<lambda>(q, st). loading st) lg = [True, True, True]
     \<and> map (\<lambda>(q, st). error st) lg = [[], [], []]
     \<and> map (\<lambda>(q, st). tideData st) lg = [None, None, None]
     \<and> weatherData (snd (lg ! 0)) = None \<and> weatherData (snd (lg ! 1)) = None
     \<and> snd (hd lg) = initialState\<lparr>city := js ''Paris'', loading := True\<rparr>
     \<and> \<not> loading s' \<and> weatherData s' \<noteq> None \<and> error s' = [])
   \<and> fst (fetchWeatherTry
       (sampleWorld (HttpResponse True (Json [])) (HttpResponse True (Json mainlyClear))
          (HttpResponse True (Json (Some sevenExtremes))))
       (initialState\<lparr>city := js ''Zzzzznotaplace'', loading := True\<rparr>))
     = Inl (js ''City not found. Please check the spelling.'')
   \<and> (case fetchWeather
         (sampleWorld (HttpResponse True (Json [])) (HttpResponse True (Json mainlyClear))
            (HttpResponse True (Json (Some sevenExtremes))))
         (initialState\<lparr>city := js ''Zzzzznotaplace''\<rparr>) of
         (s', lg) \<Rightarrow>
           \<not> loading s'
         \<and> error s' = js ''City not found. Please check the spelling.''
         \<and> error s' \<noteq> []
         \<and> weatherData s' = None \<and> tideData s' = None
         \<and> s' \<noteq> initialState\<lparr>city := js ''Zzzzznotaplace''\<rparr>)"
proof -
  let ?w = "sampleWorld (HttpResponse True (Json [parisEntry]))
              (HttpResponse True (Json mainlyClear))
              (HttpResponse True (Json (Some sevenExtremes)))"
  let ?s = "initialState\<lparr>error := js ''Failed to fetch weather data'', city := js ''Paris''\<rparr>"
  let ?v = "sampleWorld (HttpResponse True (Json [])) (HttpResponse True (Json mainlyClear))
              (HttpResponse True (Json (Some sevenExtremes)))"
  let ?t = "initialState\<lparr>city := js ''Zzzzznotaplace''\<rparr>"
  obtain s' lg where run: "fetchWeather ?w ?s = (s', lg)"
    by (cases "fetchWeather ?w ?s")
  have reqs: "map fst lg =
         [Nominatim (js ''Paris''), OpenMeteo 48.8566 2.3522,
          WorldTides 48.8566 2.3522 1700000000 172800]"
    and ok: "weatherData s' \<noteq> None"
    using fetchWeather_Paris [OF run] by simp_all
  from reqs obtain st1 st2 st3 where lg:
    "lg = [(Nominatim (js ''Paris''), st1), (OpenMeteo 48.8566 2.3522, st2),
           (WorldTides 48.8566 2.3522 1700000000 172800, st3)]"
    by (auto simp add: map_eq_Cons_conv)
  have success: "case fetchWeather ?w ?s of
     (s', lg) \<Rightarrow>
       map fst lg =
         [Nominatim (js ''Paris''), OpenMeteo 48.8566 2.3522,
          WorldTides 48.8566 2.3522 1700000000 172800]
     \<and> map (\<lambda>(q, st). loading st) lg = [True, True, True]
     \<and> map (\<lambda>(q, st). error st) lg = [[], [], []]
     \<and> map (\<lambda>(q, st). tideData st) lg = [None, None, None]
     \<and> weatherData (snd (lg ! 0)) = None \<and> weatherData (snd (lg ! 1)) = None
     \<and> snd (hd lg) = initialState\<lparr>city := js ''Paris'', loading := True\<rparr>
     \<and> \<not> loading s' \<and> weatherData s' \<noteq> None \<and> error s' = []"
    using submission_enters_and_leaves_loading [where w = ?w and s = ?s] run ok
    by (simp add: lg initialState_def)
  have sc: "searchCity (js ''Zzzzznotaplace'') = js ''Zzzzznotaplace''"
    by (simp add: searchCity_def trim_def js_def isWhiteSpace_def)
  have wf: "wellFormed (searchCity (city (initialState\<lparr>city := js ''Zzzzznotaplace'', loading := True\<rparr>)))"
    by (simp add: sc) (simp add: js_def isHighSurrogate_def isLowSurrogate_def)
  have geo: "nominatim ?v (searchCity (city (initialState\<lparr>city := js ''Zzzzznotaplace'', loading := True\<rparr>)))
               = HttpResponse True (Json [])"
    by (simp add: sampleWorld_def)
  have thrown: "fst (fetchWeatherTry ?v (initialState\<lparr>city := js ''Zzzzznotaplace'', loading := True\<rparr>))
                  = Inl (js ''City not found. Please check the spelling.'')"
    using fetchWeatherTry_not_found [OF wf geo] by simp
  have reset: "?t\<lparr>loading := True, error := [], weatherData := None, tideData := None\<rparr>
                 = initialState\<lparr>city := js ''Zzzzznotaplace'', loading := True\<rparr>"
    by (simp add: initialState_def)
  obtain t' lg' where run': "fetchWeather ?v ?t = (t', lg')"
    by (cases "fetchWeather ?v ?t")
  have "t' = ?t\<lparr>loading := False, error := js ''City not found. Please check the spelling.'',
                 weatherData := None, tideData := None\<rparr>"
    using submission_enters_and_leaves_loading [where w = ?v and s = ?t]
    unfolding run' reset thrown by simp
  then have failure: "case fetchWeather ?v ?t of
         (s', lg) \<Rightarrow>
           \<not> loading s'
         \<and> error s' = js ''City not found. Please check the spelling.''
         \<and> error s' \<noteq> []
         \<and> weatherData s' = None \<and> tideData s' = None
         \<and> s' \<noteq> initialState\<lparr>city := js ''Zzzzznotaplace''\<rparr>"
    unfolding run' by (simp add: initialState_def js_Nil_iff)
  from success thrown failure show ?thesis by (intro conjI)
qed

end
